theory Spec2Isabelle
  imports Complex_Main "HOL-Library.Monad_Syntax" "HOL-Library.Stream"
begin

section \<open>Arrays and floating-point numbers\<close>

text \<open>
  The pipeline works on numpy arrays of floats. Floats are modelled as real numbers:
  rounding error, infinities and NaN are outside the model. A 2-D array is a list of
  rows. An operation returns \<open>None\<close> where numpy has no real-valued result: it raises (the
  shapes of the operands differ, a reduction of an empty array) or it yields inf or nan
  (a division by zero). numpy also broadcasts operands whose shapes differ in an axis of
  length one; the bands of one scene share their shape and broadcasting is not modelled,
  so \<open>None\<close> for differing shapes stands for "raises or broadcasts".
\<close>

type_synonym raster = "real list list"
type_synonym mask = "bool list list"

definition shape :: "'a list list \<Rightarrow> nat list" where
  "shape a = map length a"

definition np_ew1 :: "('a \<Rightarrow> 'b) \<Rightarrow> 'a list list \<Rightarrow> 'b list list" where
  "np_ew1 f a = map (map f) a"

definition np_ew2 :: "('a \<Rightarrow> 'b \<Rightarrow> 'c) \<Rightarrow> 'a list list \<Rightarrow> 'b list list \<Rightarrow> 'c list list option" where
  "np_ew2 f a b = (if shape a = shape b then Some (map2 (map2 f) a b) else None)"

definition np_add :: "raster \<Rightarrow> raster \<Rightarrow> raster option" where
  "np_add a b = np_ew2 (\<lambda>x y. x + y) a b"

definition np_sub :: "raster \<Rightarrow> raster \<Rightarrow> raster option" where
  "np_sub a b = np_ew2 (\<lambda>x y. x - y) a b"

definition np_div :: "raster \<Rightarrow> raster \<Rightarrow> raster option" where
  "np_div a b = (if 0 \<in> set (concat b) then None else np_ew2 (\<lambda>x y. x / y) a b)"

definition np_scale :: "real \<Rightarrow> raster \<Rightarrow> raster" where
  "np_scale c a = np_ew1 (\<lambda>x. c * x) a"

definition np_add_scalar :: "raster \<Rightarrow> real \<Rightarrow> raster" where
  "np_add_scalar a c = np_ew1 (\<lambda>x. x + c) a"

definition np_mul_scalar :: "raster \<Rightarrow> real \<Rightarrow> raster" where
  "np_mul_scalar a c = np_ew1 (\<lambda>x. x * c) a"

text \<open>\<^verbatim>\<open>np.where(a == 0, v, a)\<close>\<close>

definition np_where_eq0 :: "raster \<Rightarrow> real \<Rightarrow> raster" where
  "np_where_eq0 a v = np_ew1 (\<lambda>x. if x = 0 then v else x) a"

text \<open>\<^verbatim>\<open>np.clip(x, lo, hi)\<close> is \<^verbatim>\<open>minimum(hi, maximum(x, lo))\<close>, on a scalar and elementwise.\<close>

definition clip :: "real \<Rightarrow> real \<Rightarrow> real \<Rightarrow> real" where
  "clip x lo hi = min hi (max x lo)"

definition np_clip :: "raster \<Rightarrow> real \<Rightarrow> real \<Rightarrow> raster" where
  "np_clip a lo hi = np_ew1 (\<lambda>x. clip x lo hi) a"

section \<open>Vegetation indices (satellite\_processor.py)\<close>

definition SAVI_L :: real where "SAVI_L = 0.5"
definition EVI_G :: real where "EVI_G = 2.5"
definition EVI_C1 :: real where "EVI_C1 = 6.0"
definition EVI_C2 :: real where "EVI_C2 = 7.5"
definition EVI_L :: real where "EVI_L = 1.0"

text \<open>The literal \<^verbatim>\<open>1e-10\<close> that replaces a zero denominator.\<close>

definition eps :: real where "eps = 1 / 10 ^ 10"

definition compute_ndvi :: "raster \<Rightarrow> raster \<Rightarrow> raster option" where
  "compute_ndvi nir red = do {
     denominator \<leftarrow> np_add nir red;
     let denominator = np_where_eq0 denominator eps;
     diff \<leftarrow> np_sub nir red;
     ndvi \<leftarrow> np_div diff denominator;
     let ndvi = np_clip ndvi (- 1) 1;
     Some ndvi
   }"

definition compute_ndwi :: "raster \<Rightarrow> raster \<Rightarrow> raster option" where
  "compute_ndwi nir green = do {
     denominator \<leftarrow> np_add green nir;
     let denominator = np_where_eq0 denominator eps;
     diff \<leftarrow> np_sub green nir;
     ndwi \<leftarrow> np_div diff denominator;
     Some (np_clip ndwi (- 1) 1)
   }"

text \<open>\<^verbatim>\<open>L\<close> is an optional argument; \<open>None\<close> selects the class constant.\<close>

definition compute_savi :: "raster \<Rightarrow> raster \<Rightarrow> real option \<Rightarrow> raster option" where
  "compute_savi nir red L0 = do {
     let L = (case L0 of None \<Rightarrow> SAVI_L | Some l \<Rightarrow> l);
     s \<leftarrow> np_add nir red;
     let denominator = np_add_scalar s L;
     let denominator = np_where_eq0 denominator eps;
     diff \<leftarrow> np_sub nir red;
     q \<leftarrow> np_div diff denominator;
     let savi = np_mul_scalar q (1 + L);
     Some (np_clip savi (- 1) 1)
   }"

definition compute_evi :: "raster \<Rightarrow> raster \<Rightarrow> raster \<Rightarrow> raster option" where
  "compute_evi nir red blue = do {
     s \<leftarrow> np_add nir (np_scale EVI_C1 red);
     t \<leftarrow> np_sub s (np_scale EVI_C2 blue);
     let denominator = np_add_scalar t EVI_L;
     let denominator = np_where_eq0 denominator eps;
     diff \<leftarrow> np_sub nir red;
     evi \<leftarrow> np_div (np_scale EVI_G diff) denominator;
     Some (np_clip evi (- 1) 1)
   }"

subsection \<open>The formulas of the specification, per pixel\<close>

definition spec_clamp :: "real \<Rightarrow> real" where
  "spec_clamp x = (if x < - 1 then - 1 else if 1 < x then 1 else x)"

definition spec_denominator :: "real \<Rightarrow> real" where
  "spec_denominator d = (if d = 0 then eps else d)"

definition spec_NDVI :: "real \<Rightarrow> real \<Rightarrow> real" where
  "spec_NDVI NIR Red = spec_clamp ((NIR - Red) / spec_denominator (NIR + Red))"

definition spec_NDWI :: "real \<Rightarrow> real \<Rightarrow> real" where
  "spec_NDWI NIR Green = spec_clamp ((Green - NIR) / spec_denominator (Green + NIR))"

definition spec_SAVI :: "real \<Rightarrow> real \<Rightarrow> real \<Rightarrow> real" where
  "spec_SAVI L NIR Red = spec_clamp (((NIR - Red) / spec_denominator (NIR + Red + L)) * (1 + L))"

definition spec_EVI :: "real \<Rightarrow> real \<Rightarrow> real \<Rightarrow> real" where
  "spec_EVI NIR Red Blue =
     spec_clamp (2.5 * (NIR - Red) / spec_denominator (NIR + 6.0 * Red - 7.5 * Blue + 1.0))"

section \<open>Health zones and health score (satellite\_processor.py)\<close>

text \<open>Boolean arrays: comparison with a scalar, \<^verbatim>\<open>|\<close>, \<^verbatim>\<open>&\<close>, \<^verbatim>\<open>~\<close>, \<^verbatim>\<open>.any()\<close>.\<close>

definition np_lt :: "raster \<Rightarrow> real \<Rightarrow> mask" where
  "np_lt a c = np_ew1 (\<lambda>x. x < c) a"


definition np_or :: "mask \<Rightarrow> mask \<Rightarrow> mask option" where
  "np_or a b = np_ew2 (\<lambda>x y. x \<or> y) a b"

definition np_and :: "mask \<Rightarrow> mask \<Rightarrow> mask option" where
  "np_and a b = np_ew2 (\<lambda>x y. x \<and> y) a b"

definition np_not :: "mask \<Rightarrow> mask" where
  "np_not a = np_ew1 (\<lambda>x. \<not> x) a"


text \<open>\<^verbatim>\<open>np.zeros_like(a, dtype=np.uint8)\<close> and \<^verbatim>\<open>np.ones_like(a, dtype=bool)\<close>\<close>

definition np_zeros_like :: "'a list list \<Rightarrow> nat list list" where
  "np_zeros_like a = np_ew1 (\<lambda>_. 0) a"

definition np_ones_like :: "'a list list \<Rightarrow> mask" where
  "np_ones_like a = np_ew1 (\<lambda>_. True) a"

text \<open>
  \<^verbatim>\<open>zones[m] = v\<close>: the assignment through a boolean index of the array's shape
  (an index of another shape raises).
\<close>

definition np_assign_where :: "nat list list \<Rightarrow> mask \<Rightarrow> nat \<Rightarrow> nat list list option" where
  "np_assign_where zones m v = np_ew2 (\<lambda>z b. if b then v else z) zones m"


text \<open>\<^verbatim>\<open>zones.size\<close> and \<^verbatim>\<open>np.sum(zones == k)\<close>\<close>

definition np_size :: "'a list list \<Rightarrow> nat" where
  "np_size a = length (concat a)"

definition np_count_eq :: "nat list list \<Rightarrow> nat \<Rightarrow> nat" where
  "np_count_eq zones k = length (filter (\<lambda>z. z = k) (concat zones))"

text \<open>
  \<^verbatim>\<open>float(count / total_pixels * 100)\<close>. With \<^verbatim>\<open>total_pixels = 0\<close> numpy yields nan
  (and a warning), which is \<open>None\<close> here.
\<close>

definition percent_of :: "nat \<Rightarrow> nat \<Rightarrow> real option" where
  "percent_of count total_pixels =
     (if total_pixels = 0 then None else Some (real count / real total_pixels * 100))"

record zone_stats =
  critical_percent :: real
  stressed_percent :: real
  moderate_percent :: real
  healthy_percent :: real

text \<open>
  On a raster without pixels the code returns the empty zone map with four nan
  percentages; the model has \<open>None\<close> for it.
\<close>

definition classify_health_zones :: "raster \<Rightarrow> raster \<Rightarrow> (nat list list \<times> zone_stats) option" where
  "classify_health_zones ndvi ndwi = do {
     let zones = np_zeros_like ndvi;
     critical_mask \<leftarrow> np_or (np_lt ndvi 0.2) (np_lt ndwi (- 0.2));
     zones \<leftarrow> np_assign_where zones critical_mask 0;
     low \<leftarrow> np_or (np_lt ndvi 0.4) (np_lt ndwi 0);
     stressed_mask \<leftarrow> np_and (np_not critical_mask) low;
     zones \<leftarrow> np_assign_where zones stressed_mask 1;
     rest \<leftarrow> np_and (np_not critical_mask) (np_not stressed_mask);
     moderate_mask \<leftarrow> np_and rest (np_lt ndvi 0.6);
     zones \<leftarrow> np_assign_where zones moderate_mask 2;
     rest \<leftarrow> np_and (np_not critical_mask) (np_not stressed_mask);
     healthy_mask \<leftarrow> np_and rest (np_not moderate_mask);
     zones \<leftarrow> np_assign_where zones healthy_mask 3;
     let total_pixels = np_size zones;
     critical \<leftarrow> percent_of (np_count_eq zones 0) total_pixels;
     stressed \<leftarrow> percent_of (np_count_eq zones 1) total_pixels;
     moderate \<leftarrow> percent_of (np_count_eq zones 2) total_pixels;
     healthy \<leftarrow> percent_of (np_count_eq zones 3) total_pixels;
     Some (zones, \<lparr>critical_percent = critical, stressed_percent = stressed,
                   moderate_percent = moderate, healthy_percent = healthy\<rparr>)
   }"

text \<open>
  Reductions of a 1-D array. \<^verbatim>\<open>np.mean\<close> and \<^verbatim>\<open>np.std\<close> of an empty array are nan,
  \<^verbatim>\<open>np.max\<close> and \<^verbatim>\<open>np.min\<close> of an empty array raise: \<open>None\<close>. Without nan in the model
  \<^verbatim>\<open>np.nanmean\<close> and \<^verbatim>\<open>np.nanstd\<close> are \<^verbatim>\<open>np.mean\<close> and \<^verbatim>\<open>np.std\<close>.
\<close>

definition np_mean :: "real list \<Rightarrow> real option" where
  "np_mean xs = (if xs = [] then None else Some (sum_list xs / real (length xs)))"

definition np_std :: "real list \<Rightarrow> real option" where
  "np_std xs = do {
     m \<leftarrow> np_mean xs;
     v \<leftarrow> np_mean (map (\<lambda>x. \<bar>x - m\<bar> ^ 2) xs);
     Some (sqrt v)
   }"

fun np_max :: "real list \<Rightarrow> real option" where
  "np_max [] = None"
| "np_max (x # xs) = Some (fold max xs x)"

fun np_min :: "real list \<Rightarrow> real option" where
  "np_min [] = None"
| "np_min (x # xs) = Some (fold min xs x)"

fun np_diff :: "real list \<Rightarrow> real list" where
  "np_diff (x # y # ys) = (y - x) # np_diff (y # ys)"
| "np_diff _ = []"

text \<open>Indexing a sequence the way Python does: a negative index counts from the end.\<close>

definition item :: "'a list \<Rightarrow> int \<Rightarrow> 'a option" where
  "item xs i =
     (let n = int (length xs); j = (if i < 0 then n + i else i)
      in if 0 \<le> j \<and> j < n then Some (xs ! nat j) else None)"

text \<open>
  \<^verbatim>\<open>round(x, n)\<close> rounds to \<open>n\<close> decimals, a tie going to the even neighbour.
\<close>

definition round_half_even :: "real \<Rightarrow> int" where
  "round_half_even y =
     (let f = \<lfloor>y\<rfloor>; d = y - of_int f
      in if d < 1 / 2 then f else if 1 / 2 < d then f + 1 else if even f then f else f + 1)"

definition py_round :: "real \<Rightarrow> nat \<Rightarrow> real" where
  "py_round x n = of_int (round_half_even (x * 10 ^ n)) / 10 ^ n"

text \<open>\<^verbatim>\<open>int(x)\<close> truncates towards zero.\<close>

definition py_int :: "real \<Rightarrow> int" where
  "py_int x = (if 0 \<le> x then \<lfloor>x\<rfloor> else \<lceil>x\<rceil>)"

record SatelliteImage =
  farm_id :: int
  acquisition_date :: int
  source :: string
  blue :: "raster option"
  green :: raster
  red :: raster
  nir :: raster
  swir :: "raster option"
  cloud_mask :: "mask option"
  resolution_meters :: real
  crs :: string
  bounds :: "(real \<times> real \<times> real \<times> real) option"

record VegetationIndices =
  ndvi :: raster
  ndwi :: raster
  savi :: raster
  evi :: "raster option"
  ndvi_mean :: real
  ndvi_std :: real
  ndwi_mean :: real
  ndwi_std :: real
  savi_mean :: real


definition compute_health_score :: "VegetationIndices \<Rightarrow> real" where
  "compute_health_score indices =
     (let ndvi_score = clip ((ndvi_mean indices - 0.2) / 0.6 * 100) 0 100;
          ndwi_score = clip ((ndwi_mean indices + 0.2) / 0.6 * 100) 0 100;
          health_score = 0.7 * ndvi_score + 0.3 * ndwi_score
      in py_round health_score 1)"

section \<open>Yield prediction (yield\_predictor.py)\<close>

datatype CropType = WHEAT | RICE | COTTON | SUGARCANE | MAIZE

text \<open>
  The field \<^verbatim>\<open>crop_type\<close> is annotated \<^verbatim>\<open>CropType\<close>, which Python does not enforce: it
  holds a member of the enumeration, or any other hashable value, such as the string
  \<^verbatim>\<open>"barley"\<close>, here \<open>Other\<close> with a description of the value. No other value equals a
  member; the string \<^verbatim>\<open>"wheat"\<close> is not \<^verbatim>\<open>CropType.WHEAT\<close>.
\<close>

datatype crop_value = Member CropType | Other string

text \<open>An entry of \<^verbatim>\<open>key_factors\<close>; its formatted value and its Urdu texts are left out.\<close>

record key_factor =
  factor :: string
  impact :: string
  message_en :: string

record YieldPrediction =
  crop_type :: crop_value
  predicted_yield_tons_per_hectare :: real
  confidence_interval :: "real \<times> real"
  confidence_percent :: real
  feature_importance :: "(string \<times> real) list"
  key_factors :: "key_factor list"
  district_average :: real
  province_average :: real
  national_average :: real
  percentile :: int

text \<open>\<^verbatim>\<open>planting_date\<close> is a day number.\<close>

record FarmFeatures =
  farm_id :: int
  crop_type :: crop_value
  area_hectares :: real
  ndvi_series :: "real list"
  current_ndvi :: real
  current_ndwi :: real
  current_savi :: real
  avg_temperature :: real
  total_rainfall_mm :: real
  humidity_percent :: real
  soil_ph :: real
  soil_nitrogen :: real
  soil_phosphorus :: real
  soil_potassium :: real
  irrigation_type :: string
  fertilizer_applied_kg :: real
  planting_date :: int
  district :: string
  province :: string

text \<open>A row of \<^verbatim>\<open>PAKISTAN_YIELDS\<close>; \<open>min'\<close> is its key \<^verbatim>\<open>"min"\<close>.\<close>

record crop_stats =
  national_avg :: real
  punjab_avg :: real
  sindh_avg :: real
  optimal :: real
  min' :: real

definition PAKISTAN_YIELDS :: "crop_value \<rightharpoonup> crop_stats" where
  "PAKISTAN_YIELDS = map_of [
     (Member WHEAT, \<lparr>national_avg = 3.1, punjab_avg = 3.3, sindh_avg = 2.8, optimal = 5.0, min' = 1.5\<rparr>),
     (Member RICE, \<lparr>national_avg = 2.8, punjab_avg = 2.5, sindh_avg = 3.2, optimal = 4.5, min' = 1.2\<rparr>),
     (Member COTTON, \<lparr>national_avg = 0.8, punjab_avg = 0.85, sindh_avg = 0.75, optimal = 1.5, min' = 0.3\<rparr>),
     (Member SUGARCANE, \<lparr>national_avg = 55.0, punjab_avg = 58.0, sindh_avg = 52.0, optimal = 80.0, min' = 30.0\<rparr>),
     (Member MAIZE, \<lparr>national_avg = 5.5, punjab_avg = 5.8, sindh_avg = 4.5, optimal = 8.0, min' = 2.5\<rparr>)]"

text \<open>
  A failed dictionary lookup raises \<^verbatim>\<open>KeyError\<close>, the only exception of this module.
  \<open>UnknownCropType\<close> and \<open>InvalidFeatureVector\<close> are the error kinds that the specification
  names; the module defines no such exception and no path of the code raises one.
\<close>

datatype py_error = KeyError | UnknownCropType | InvalidFeatureVector

definition encode :: "real list \<Rightarrow> real list option" where
  "encode series =
     (if length series < 3 then Some (replicate 8 0)
      else do {
        mean \<leftarrow> np_mean series;
        std \<leftarrow> np_std series;
        peak \<leftarrow> np_max series;
        trough \<leftarrow> np_min series;
        final \<leftarrow> item series (- 1);
        first \<leftarrow> item series 0;
        avg_change \<leftarrow> np_mean (np_diff series);
        max_change \<leftarrow> np_max (np_diff series);
        Some [mean, std, peak, trough, final - first, final, avg_change, max_change]
      })"

definition irrigation_factors :: "string \<rightharpoonup> real" where
  "irrigation_factors = map_of [(''canal'', 1.0), (''tubewell'', 0.95), (''rainfed'', 0.7)]"

text \<open>
  \<^verbatim>\<open>XGBoostYieldModel.predict\<close> draws \<^verbatim>\<open>noise = np.random.normal(0, 0.05)\<close> from numpy's
  global generator. The sample drawn is the argument \<open>noise\<close> of the model.
\<close>

definition XGBoostYieldModel_predict :: "real \<Rightarrow> FarmFeatures \<Rightarrow> py_error + real" where
  "XGBoostYieldModel_predict noise farm =
     (case PAKISTAN_YIELDS (crop_type farm) of
        None \<Rightarrow> Inl KeyError
      | Some row \<Rightarrow>
          let base_yield = national_avg row;
              optimal_yield = optimal row;
              min_yield = min' row;
              ndvi_factor = clip ((current_ndvi farm - 0.3) / 0.4) 0 1;
              water_factor = clip ((current_ndwi farm + 0.2) / 0.5) 0 1;
              irrigation_factor =
                (case irrigation_factors (irrigation_type farm) of Some f \<Rightarrow> f | None \<Rightarrow> 0.8);
              combined_factor = 0.5 * ndvi_factor + 0.3 * water_factor + 0.2 * irrigation_factor;
              yield_range = optimal_yield - min_yield;
              predicted = min_yield + combined_factor * yield_range;
              predicted = predicted * (1 + noise)
          in Inr (clip predicted min_yield optimal_yield))"

text \<open>\<^verbatim>\<open>str.lower\<close>, on ASCII letters.\<close>

definition lower_char :: "char \<Rightarrow> char" where
  "lower_char c =
     (let n = (of_char c :: nat) in if 65 \<le> n \<and> n \<le> 90 then char_of (n + 32) else c)"

definition lower :: "string \<Rightarrow> string" where
  "lower s = map lower_char s"

definition ndvi_key_factors :: "FarmFeatures \<Rightarrow> key_factor list" where
  "ndvi_key_factors farm =
     (if 0.6 \<le> current_ndvi farm then
        [\<lparr>factor = ''NDVI Index'', impact = ''positive'',
          message_en = ''Excellent vegetation health''\<rparr>]
      else if current_ndvi farm < 0.4 then
        [\<lparr>factor = ''NDVI Index'', impact = ''negative'',
          message_en = ''Low vegetation health - needs attention''\<rparr>]
      else [])"

definition water_key_factors :: "FarmFeatures \<Rightarrow> key_factor list" where
  "water_key_factors farm =
     (if current_ndwi farm < 0.1 then
        [\<lparr>factor = ''Water Stress'', impact = ''negative'',
          message_en = ''Water stress detected - increase irrigation''\<rparr>]
      else [])"

definition YieldPredictor_predict :: "real \<Rightarrow> FarmFeatures \<Rightarrow> py_error + YieldPrediction" where
  "YieldPredictor_predict noise farm =
     (case XGBoostYieldModel_predict noise farm of
        Inl e \<Rightarrow> Inl e
      | Inr predicted_yield \<Rightarrow>
          let std_error = 0.15 * predicted_yield;
              ci_low = predicted_yield - 1.96 * std_error;
              ci_high = predicted_yield + 1.96 * std_error
          in (case PAKISTAN_YIELDS (crop_type farm) of
                None \<Rightarrow> Inl KeyError
              | Some crop_stats \<Rightarrow>
                  let national_avg = national_avg crop_stats;
                      province_avg =
                        (if lower (province farm) = ''punjab'' then punjab_avg crop_stats
                         else if lower (province farm) = ''sindh'' then sindh_avg crop_stats
                         else national_avg);
                      percentile = py_int (clip
                        ((predicted_yield - min' crop_stats) /
                         (optimal crop_stats - min' crop_stats) * 100) 0 100);
                      feature_importance =
                        [(''NDVI Index'', 0.35), (''Water Availability'', 0.25),
                         (''Weather Conditions'', 0.15), (''Soil Quality'', 0.10),
                         (''Irrigation Type'', 0.10), (''Management Practices'', 0.05)];
                      key_factors = ndvi_key_factors farm @ water_key_factors farm
                  in Inr \<lparr>YieldPrediction.crop_type = crop_type farm,
                          predicted_yield_tons_per_hectare = py_round predicted_yield 2,
                          confidence_interval = (py_round ci_low 2, py_round ci_high 2),
                          confidence_percent = 85.0,
                          feature_importance = feature_importance,
                          key_factors = key_factors,
                          district_average = province_avg * 0.95,
                          province_average = province_avg,
                          national_average = national_avg,
                          percentile = percentile\<rparr>))"

section \<open>The shared random generator and the clock (yield\_predictor.py)\<close>





text \<open>
  \<^verbatim>\<open>predict_timeseries\<close>: one call of \<^verbatim>\<open>predict\<close>, then for every \<^verbatim>\<open>day\<close> of
  \<^verbatim>\<open>range(0, days_ahead, 7)\<close> a draw of \<^verbatim>\<open>np.random.normal(0, 0.02)\<close> and a reading of the
  clock. \<open>today\<close> is the day number of \<^verbatim>\<open>datetime.now()\<close>; the date of a point is a day
  number, its formatting as a string is left out.
\<close>

record timeseries_point =
  days_from_now :: int
  date :: int
  predicted_yield :: real
  confidence :: real





section \<open>The zone policy of the specification\<close>

text \<open>
  The priority order of the specification, per pixel: critical (0), else stressed (1),
  else moderate (2), else healthy (3).
\<close>

definition spec_zone :: "real \<Rightarrow> real \<Rightarrow> nat" where
  "spec_zone NDVI NDWI =
     (if NDVI < 0.2 \<or> NDWI < - 0.2 then 0
      else if NDVI < 0.4 \<or> NDWI < 0 then 1
      else if NDVI < 0.6 then 2
      else 3)"

text \<open>The share of a zone in a zone map, in percent of all its pixels.\<close>

definition zone_percent :: "nat list list \<Rightarrow> nat \<Rightarrow> real" where
  "zone_percent zones k = real (np_count_eq zones k) / real (np_size zones) * 100"

text \<open>
  The code that the four masked assignments of \<open>classify_health_zones\<close> leave in the pixel
  \<open>p = (ndvi, ndwi)\<close>: the last assignment whose mask holds.
\<close>

definition mask_zone :: "real \<times> real \<Rightarrow> nat" where
  "mask_zone p =
     (let critical = (fst p < 0.2 \<or> snd p < - 0.2);
          stressed = (\<not> critical \<and> (fst p < 0.4 \<or> snd p < 0));
          moderate = ((\<not> critical \<and> \<not> stressed) \<and> fst p < 0.6);
          healthy = ((\<not> critical \<and> \<not> stressed) \<and> \<not> moderate)
      in if healthy then 3 else if moderate then 2 else if stressed then 1
         else if critical then 0 else 0)"

section \<open>Zone shares and index statistics, as the specification words them\<close>





section \<open>The health score of the specification\<close>

definition spec_clamp_range :: "real \<Rightarrow> real \<Rightarrow> real \<Rightarrow> real" where
  "spec_clamp_range x lo hi = (if x < lo then lo else if hi < x then hi else x)"

definition spec_health_score :: "real \<Rightarrow> real \<Rightarrow> real" where
  "spec_health_score mean_ndvi mean_ndwi =
     py_round (0.7 * spec_clamp_range ((mean_ndvi - 0.2) / 0.6 * 100) 0 100 +
               0.3 * spec_clamp_range ((mean_ndwi + 0.2) / 0.6 * 100) 0 100) 1"

text \<open>Two sets of index statistics that differ in the mean NDVI only.\<close>

definition indices_a :: VegetationIndices where
  "indices_a = \<lparr>ndvi = [], ndwi = [], savi = [], evi = None, ndvi_mean = 0.5, ndvi_std = 0,
     ndwi_mean = 0.1, ndwi_std = 0, savi_mean = 0\<rparr>"

definition indices_b :: VegetationIndices where
  "indices_b = \<lparr>ndvi = [], ndwi = [], savi = [], evi = None, ndvi_mean = 0.6, ndvi_std = 0,
     ndwi_mean = 0.1, ndwi_std = 0, savi_mean = 0\<rparr>"

section \<open>The summary statistics of the specification\<close>

text \<open>
  Mean, (population) standard deviation and consecutive differences of a sequence, by
  their closed forms over the positions of the sequence.
\<close>

definition spec_mean :: "real list \<Rightarrow> real" where
  "spec_mean xs = (\<Sum>i = 0..<length xs. xs ! i) / real (length xs)"

definition spec_std :: "real list \<Rightarrow> real" where
  "spec_std xs = sqrt ((\<Sum>i = 0..<length xs. (xs ! i - spec_mean xs) ^ 2) / real (length xs))"

definition spec_differences :: "real list \<Rightarrow> real list" where
  "spec_differences xs = map (\<lambda>i. xs ! (i + 1) - xs ! i) [0..<length xs - 1]"

section \<open>The point estimate of the specification\<close>

definition spec_irrigation_factor :: "string \<Rightarrow> real" where
  "spec_irrigation_factor method =
     (if method = ''canal'' then 1.0 else if method = ''tubewell'' then 0.95
      else if method = ''rainfed'' then 0.7 else 0.8)"

definition spec_combined :: "FarmFeatures \<Rightarrow> real" where
  "spec_combined farm =
     0.5 * spec_clamp_range ((current_ndvi farm - 0.3) / 0.4) 0 1 +
     0.3 * spec_clamp_range ((current_ndwi farm + 0.2) / 0.5) 0 1 +
     0.2 * spec_irrigation_factor (irrigation_type farm)"

definition spec_point_estimate :: "crop_stats \<Rightarrow> FarmFeatures \<Rightarrow> real" where
  "spec_point_estimate row farm =
     spec_clamp_range (min' row + spec_combined farm * (optimal row - min' row))
       (min' row) (optimal row)"

text \<open>
  The farm of the module's example run, the WHEAT row, a farm of area zero, and a farm
  whose crop type is the string \<^verbatim>\<open>"barley"\<close>.
\<close>

definition sample_farm :: FarmFeatures where
  "sample_farm = \<lparr>farm_id = 1, crop_type = Member WHEAT, area_hectares = 2.0,
     ndvi_series = [0.45, 0.48, 0.52, 0.55, 0.58, 0.60, 0.62, 0.63, 0.64, 0.65],
     current_ndvi = 0.65, current_ndwi = 0.35, current_savi = 0.58,
     avg_temperature = 22.0, total_rainfall_mm = 150.0, humidity_percent = 65.0,
     soil_ph = 7.2, soil_nitrogen = 180, soil_phosphorus = 25, soil_potassium = 150,
     irrigation_type = ''canal'', fertilizer_applied_kg = 150, planting_date = 739570,
     district = ''Faisalabad'', province = ''Punjab''\<rparr>"

definition wheat_row :: crop_stats where
  "wheat_row = \<lparr>national_avg = 3.1, punjab_avg = 3.3, sindh_avg = 2.8, optimal = 5.0, min' = 1.5\<rparr>"

definition fallow_farm :: FarmFeatures where
  "fallow_farm = sample_farm\<lparr>farm_id := 2, area_hectares := 0\<rparr>"

definition barley_farm :: FarmFeatures where
  "barley_farm = sample_farm\<lparr>farm_id := 3, crop_type := Other ''barley''\<rparr>"



section \<open>Elementwise operations on arrays of one shape\<close>

lemma shape_ew1 [simp]: "shape (np_ew1 f a) = shape a"
  by (simp add: shape_def np_ew1_def comp_def)

lemma map2_same_source:
  "map2 f (map g xs) (map h xs) = map (\<lambda>x. f (g x) (h x)) xs"
  by (induction xs) simp_all

lemma np_ew2_same_source:
  "np_ew2 f (np_ew1 g P) (np_ew1 h P) = Some (np_ew1 (\<lambda>p. f (g p) (h p)) P)"
  by (simp add: np_ew2_def np_ew1_def shape_def comp_def map2_same_source)

lemma np_ew1_ew1: "np_ew1 f (np_ew1 g P) = np_ew1 (\<lambda>p. f (g p)) P"
  by (simp add: np_ew1_def comp_def)

lemma zip_rows:
  "length xs = length ys \<Longrightarrow> map fst (zip xs ys) = xs \<and> map snd (zip xs ys) = ys"
  by simp

lemma same_shape_pairs:
  assumes "shape a = shape b"
  shows "a = np_ew1 fst (map2 zip a b) \<and> b = np_ew1 snd (map2 zip a b)"
  using assms
proof (induction a arbitrary: b)
  case Nil
  then show ?case by (simp add: shape_def np_ew1_def)
next
  case (Cons r a)
  then obtain s b' where b: "b = s # b'" by (cases b) (auto simp: shape_def)
  with Cons.prems have len: "length r = length s" and sh: "shape a = shape b'"
    by (simp_all add: shape_def)
  from Cons.IH [OF sh] len show ?case
    by (simp add: b np_ew1_def)
qed

lemma eps_pos: "0 < eps" by (simp add: eps_def)

lemma clip_unit: "clip x (- 1) 1 = spec_clamp x"
  by (simp add: clip_def spec_clamp_def min_def max_def)

lemma spec_clamp_bounds: "- 1 \<le> spec_clamp x \<and> spec_clamp x \<le> 1"
  by (simp add: spec_clamp_def)

lemma spec_denominator_nz: "spec_denominator d \<noteq> 0"
  using eps_pos by (simp add: spec_denominator_def)

lemma zero_notin_ew1: "(\<And>p. h p \<noteq> 0) \<Longrightarrow> 0 \<notin> set (concat (np_ew1 h P))"
  by (auto simp: np_ew1_def)

lemma np_div_same_source:
  "(\<And>p. h p \<noteq> 0) \<Longrightarrow>
   np_div (np_ew1 g P) (np_ew1 h P) = Some (np_ew1 (\<lambda>p. g p / h p) P)"
  using zero_notin_ew1 [of h P] by (simp add: np_div_def np_ew2_same_source)

lemma length_shape: "shape a = shape b \<Longrightarrow> length a = length b"
  unfolding shape_def by (rule map_eq_imp_length_eq)

lemma row_length_shape: "shape a = shape b \<Longrightarrow> i < length a \<Longrightarrow> length (a ! i) = length (b ! i)"
  unfolding shape_def by (metis length_map nth_map)

lemma nth_ew1: "i < length a \<Longrightarrow> j < length (a ! i) \<Longrightarrow> np_ew1 f a ! i ! j = f (a ! i ! j)"
  by (simp add: np_ew1_def)

lemma nth_zip_rows:
  "shape a = shape b \<Longrightarrow> i < length a \<Longrightarrow> j < length (a ! i) \<Longrightarrow>
   map2 zip a b ! i ! j = (a ! i ! j, b ! i ! j)"
  using length_shape [of a b] row_length_shape [of a b i] by simp

lemma shape_zip_rows: "shape a = shape b \<Longrightarrow> shape (map2 zip a b) = shape a"
  using same_shape_pairs [of a b] shape_ew1 [of fst "map2 zip a b"] by simp

lemma compute_ndvi_pairs:
  "compute_ndvi (np_ew1 fst P) (np_ew1 snd P) = Some (np_ew1 (\<lambda>p. spec_NDVI (fst p) (snd p)) P)"
  by (simp add: compute_ndvi_def np_add_def np_sub_def np_where_eq0_def np_clip_def
      np_ew2_same_source np_ew1_ew1 np_div_same_source eps_pos less_imp_neq [THEN not_sym]
      clip_unit spec_NDVI_def spec_denominator_def)


lemma compute_ndwi_pairs:
  "compute_ndwi (np_ew1 fst P) (np_ew1 snd P) = Some (np_ew1 (\<lambda>p. spec_NDWI (fst p) (snd p)) P)"
  by (simp add: compute_ndwi_def np_add_def np_sub_def np_where_eq0_def np_clip_def
      np_ew2_same_source np_ew1_ew1 np_div_same_source eps_pos less_imp_neq [THEN not_sym]
      clip_unit spec_NDWI_def spec_denominator_def)

lemma compute_savi_pairs:
  "compute_savi (np_ew1 fst P) (np_ew1 snd P) L0 =
     Some (np_ew1 (\<lambda>p. spec_SAVI (case L0 of None \<Rightarrow> SAVI_L | Some l \<Rightarrow> l) (fst p) (snd p)) P)"
  by (simp add: compute_savi_def np_add_def np_sub_def np_where_eq0_def np_clip_def
      np_add_scalar_def np_mul_scalar_def Let_def
      np_ew2_same_source np_ew1_ew1 np_div_same_source eps_pos less_imp_neq [THEN not_sym]
      clip_unit spec_SAVI_def spec_denominator_def)

lemma compute_evi_triples:
  "compute_evi (np_ew1 fst P) (np_ew1 (\<lambda>p. fst (snd p)) P) (np_ew1 (\<lambda>p. snd (snd p)) P) =
     Some (np_ew1 (\<lambda>p. spec_EVI (fst p) (fst (snd p)) (snd (snd p))) P)"
  by (simp add: compute_evi_def np_add_def np_sub_def np_where_eq0_def np_clip_def
      np_add_scalar_def np_scale_def EVI_G_def EVI_C1_def EVI_C2_def EVI_L_def
      np_ew2_same_source np_ew1_ew1 np_div_same_source eps_pos less_imp_neq [THEN not_sym]
      clip_unit spec_EVI_def spec_denominator_def)

lemma pairs_of_same_shape:
  assumes "shape b = shape a"
  shows "\<exists>P. a = np_ew1 fst P \<and> b = np_ew1 snd P \<and> shape P = shape a \<and>
     (\<forall>i<length a. \<forall>j<length (a ! i). P ! i ! j = (a ! i ! j, b ! i ! j))"
proof (intro exI conjI allI impI)
  from assms have sh: "shape a = shape b" by simp
  show "a = np_ew1 fst (map2 zip a b)" "b = np_ew1 snd (map2 zip a b)"
    using same_shape_pairs [OF sh] by simp_all
  show "shape (map2 zip a b) = shape a" by (rule shape_zip_rows [OF sh])
  show "\<And>i j. i < length a \<Longrightarrow> j < length (a ! i) \<Longrightarrow> map2 zip a b ! i ! j = (a ! i ! j, b ! i ! j)"
    by (rule nth_zip_rows [OF sh])
qed

lemma nth_ew1_shape:
  "shape P = shape a \<Longrightarrow> i < length a \<Longrightarrow> j < length (a ! i) \<Longrightarrow>
   np_ew1 f P ! i ! j = f (P ! i ! j)"
  using length_shape [of P a] row_length_shape [of P a i] by (simp add: nth_ew1)

lemma pixels_of_pairs:
  assumes sh: "shape b = shape a"
    and F: "\<And>P. F (np_ew1 fst P) (np_ew1 snd P) = Some (np_ew1 (\<lambda>p. f (fst p) (snd p)) P)"
  shows "\<exists>r. F a b = Some r \<and> shape r = shape a \<and>
     (\<forall>i<length a. \<forall>j<length (a ! i). r ! i ! j = f (a ! i ! j) (b ! i ! j))"
proof -
  from pairs_of_same_shape [OF sh]
  obtain P where P: "a = np_ew1 fst P" "b = np_ew1 snd P" "shape P = shape a"
    and nth: "\<forall>i<length a. \<forall>j<length (a ! i). P ! i ! j = (a ! i ! j, b ! i ! j)"
    by blast
  let ?r = "np_ew1 (\<lambda>p. f (fst p) (snd p)) P"
  have "F a b = Some ?r"
    using F [of P] P(1,2) by simp
  moreover have "shape ?r = shape a" using P(3) by simp
  moreover have "\<forall>i<length a. \<forall>j<length (a ! i). ?r ! i ! j = f (a ! i ! j) (b ! i ! j)"
    using nth by (simp add: nth_ew1_shape [OF P(3)])
  ultimately show ?thesis by blast
qed

lemma triples_of_same_shape:
  assumes "shape b = shape a" and "shape c = shape a"
  shows "\<exists>P. a = np_ew1 fst P \<and> b = np_ew1 (\<lambda>p. fst (snd p)) P \<and>
     c = np_ew1 (\<lambda>p. snd (snd p)) P \<and> shape P = shape a \<and>
     (\<forall>i<length a. \<forall>j<length (a ! i). P ! i ! j = (a ! i ! j, b ! i ! j, c ! i ! j))"
proof -
  from assms have "shape c = shape b" by simp
  from pairs_of_same_shape [OF this]
  obtain Q where Q: "b = np_ew1 fst Q" "c = np_ew1 snd Q" "shape Q = shape b"
    and nthQ: "\<forall>i<length b. \<forall>j<length (b ! i). Q ! i ! j = (b ! i ! j, c ! i ! j)"
    by blast
  from Q(3) assms(1) have "shape Q = shape a" by simp
  from pairs_of_same_shape [OF this]
  obtain P where P: "a = np_ew1 fst P" "Q = np_ew1 snd P" "shape P = shape a"
    and nthP: "\<forall>i<length a. \<forall>j<length (a ! i). P ! i ! j = (a ! i ! j, Q ! i ! j)"
    by blast
  have "b = np_ew1 (\<lambda>p. fst (snd p)) P" "c = np_ew1 (\<lambda>p. snd (snd p)) P"
    using Q(1,2) P(2) by (simp_all add: np_ew1_ew1)
  moreover have "\<forall>i<length a. \<forall>j<length (a ! i). P ! i ! j = (a ! i ! j, b ! i ! j, c ! i ! j)"
    using nthP nthQ length_shape [OF assms(1)] row_length_shape [OF assms(1)] by simp
  ultimately show ?thesis using P(1,3) by blast
qed

lemma pixels_of_triples:
  assumes sh: "shape b = shape a" "shape c = shape a"
    and F: "\<And>P. F (np_ew1 fst P) (np_ew1 (\<lambda>p. fst (snd p)) P) (np_ew1 (\<lambda>p. snd (snd p)) P) =
              Some (np_ew1 (\<lambda>p. f (fst p) (fst (snd p)) (snd (snd p))) P)"
  shows "\<exists>r. F a b c = Some r \<and> shape r = shape a \<and>
     (\<forall>i<length a. \<forall>j<length (a ! i). r ! i ! j = f (a ! i ! j) (b ! i ! j) (c ! i ! j))"
proof -
  from triples_of_same_shape [OF sh]
  obtain P where P: "a = np_ew1 fst P" "b = np_ew1 (\<lambda>p. fst (snd p)) P"
      "c = np_ew1 (\<lambda>p. snd (snd p)) P" "shape P = shape a"
    and nth: "\<forall>i<length a. \<forall>j<length (a ! i). P ! i ! j = (a ! i ! j, b ! i ! j, c ! i ! j)"
    by blast
  let ?r = "np_ew1 (\<lambda>p. f (fst p) (fst (snd p)) (snd (snd p))) P"
  have "F a b c = Some ?r"
    using F [of P] P(1,2,3) by simp
  moreover have "shape ?r = shape a" using P(4) by simp
  moreover have "\<forall>i<length a. \<forall>j<length (a ! i). ?r ! i ! j = f (a ! i ! j) (b ! i ! j) (c ! i ! j)"
    using nth by (simp add: nth_ew1_shape [OF P(4)])
  ultimately show ?thesis by blast
qed

lemma spec_index_bounds:
  "- 1 \<le> spec_NDVI n r \<and> spec_NDVI n r \<le> 1"
  "- 1 \<le> spec_NDWI n g \<and> spec_NDWI n g \<le> 1"
  "- 1 \<le> spec_SAVI L n r \<and> spec_SAVI L n r \<le> 1"
  "- 1 \<le> spec_EVI n r b \<and> spec_EVI n r b \<le> 1"
  unfolding spec_NDVI_def spec_NDWI_def spec_SAVI_def spec_EVI_def
  by (rule spec_clamp_bounds)+

section \<open>The vegetation indices follow the formulas\<close>

text \<open>
  Claim C1. For band rasters of one shape, \<open>compute_ndvi\<close>, \<open>compute_ndwi\<close>,
  \<open>compute_savi\<close> (with the default \<open>L = 0.5\<close>, and with any \<open>L\<close> passed) and
  \<open>compute_evi\<close> return a raster of that shape whose every pixel is the formula of the
  specification: NDVI = (NIR - Red) / (NIR + Red), NDWI = (Green - NIR) / (Green + NIR),
  SAVI = ((NIR - Red) / (NIR + Red + L)) * (1 + L),
  EVI = 2.5 * (NIR - Red) / (NIR + 6 * Red - 7.5 * Blue + 1), where a denominator that is
  exactly zero is replaced by the positive \<open>eps\<close>, so that no pixel is divided by zero and
  every computation returns, and the value is clamped to [-1, 1].
\<close>

theorem index_formulas:
  fixes nir red green blue :: raster
  assumes "shape red = shape nir" and "shape green = shape nir" and "shape blue = shape nir"
  shows "\<exists>ndvi ndwi savi evi.
    compute_ndvi nir red = Some ndvi \<and> compute_ndwi nir green = Some ndwi \<and>
    compute_savi nir red None = Some savi \<and> compute_evi nir red blue = Some evi \<and>
    shape ndvi = shape nir \<and> shape ndwi = shape nir \<and>
    shape savi = shape nir \<and> shape evi = shape nir \<and>
    (\<forall>i<length nir. \<forall>j<length (nir ! i).
       ndvi ! i ! j = spec_NDVI (nir ! i ! j) (red ! i ! j) \<and>
       ndwi ! i ! j = spec_NDWI (nir ! i ! j) (green ! i ! j) \<and>
       savi ! i ! j = spec_SAVI 0.5 (nir ! i ! j) (red ! i ! j) \<and>
       evi ! i ! j = spec_EVI (nir ! i ! j) (red ! i ! j) (blue ! i ! j) \<and>
       - 1 \<le> ndvi ! i ! j \<and> ndvi ! i ! j \<le> 1 \<and> - 1 \<le> ndwi ! i ! j \<and> ndwi ! i ! j \<le> 1 \<and>
       - 1 \<le> savi ! i ! j \<and> savi ! i ! j \<le> 1 \<and> - 1 \<le> evi ! i ! j \<and> evi ! i ! j \<le> 1) \<and>
    (\<forall>L. \<exists>savi_L. compute_savi nir red (Some L) = Some savi_L \<and> shape savi_L = shape nir \<and>
       (\<forall>i<length nir. \<forall>j<length (nir ! i).
          savi_L ! i ! j = spec_SAVI L (nir ! i ! j) (red ! i ! j) \<and>
          - 1 \<le> savi_L ! i ! j \<and> savi_L ! i ! j \<le> 1)) \<and>
    0 < eps \<and> (\<forall>d. spec_denominator d \<noteq> 0)"
proof -
  from pixels_of_pairs [OF assms(1), of compute_ndvi spec_NDVI, OF compute_ndvi_pairs]
  obtain ndvi where 1: "compute_ndvi nir red = Some ndvi" "shape ndvi = shape nir"
    "\<forall>i<length nir. \<forall>j<length (nir ! i). ndvi ! i ! j = spec_NDVI (nir ! i ! j) (red ! i ! j)"
    by blast
  from pixels_of_pairs [OF assms(2), of compute_ndwi spec_NDWI, OF compute_ndwi_pairs]
  obtain ndwi where 2: "compute_ndwi nir green = Some ndwi" "shape ndwi = shape nir"
    "\<forall>i<length nir. \<forall>j<length (nir ! i). ndwi ! i ! j = spec_NDWI (nir ! i ! j) (green ! i ! j)"
    by blast
  have "\<And>P. compute_savi (np_ew1 fst P) (np_ew1 snd P) None =
      Some (np_ew1 (\<lambda>p. spec_SAVI 0.5 (fst p) (snd p)) P)"
    by (simp add: compute_savi_pairs SAVI_L_def)
  from pixels_of_pairs [OF assms(1), of "\<lambda>a b. compute_savi a b None" "spec_SAVI 0.5", OF this]
  obtain savi where 3: "compute_savi nir red None = Some savi" "shape savi = shape nir"
    "\<forall>i<length nir. \<forall>j<length (nir ! i). savi ! i ! j = spec_SAVI 0.5 (nir ! i ! j) (red ! i ! j)"
    by blast
  from pixels_of_triples [OF assms(1,3), of compute_evi spec_EVI, OF compute_evi_triples]
  obtain evi where 4: "compute_evi nir red blue = Some evi" "shape evi = shape nir"
    "\<forall>i<length nir. \<forall>j<length (nir ! i).
       evi ! i ! j = spec_EVI (nir ! i ! j) (red ! i ! j) (blue ! i ! j)"
    by blast
  have px: "\<forall>i<length nir. \<forall>j<length (nir ! i).
       ndvi ! i ! j = spec_NDVI (nir ! i ! j) (red ! i ! j) \<and>
       ndwi ! i ! j = spec_NDWI (nir ! i ! j) (green ! i ! j) \<and>
       savi ! i ! j = spec_SAVI 0.5 (nir ! i ! j) (red ! i ! j) \<and>
       evi ! i ! j = spec_EVI (nir ! i ! j) (red ! i ! j) (blue ! i ! j) \<and>
       - 1 \<le> ndvi ! i ! j \<and> ndvi ! i ! j \<le> 1 \<and> - 1 \<le> ndwi ! i ! j \<and> ndwi ! i ! j \<le> 1 \<and>
       - 1 \<le> savi ! i ! j \<and> savi ! i ! j \<le> 1 \<and> - 1 \<le> evi ! i ! j \<and> evi ! i ! j \<le> 1"
    using 1(3) 2(3) 3(3) 4(3) by (simp add: spec_index_bounds)
  have any_L: "\<exists>savi_L. compute_savi nir red (Some L) = Some savi_L \<and> shape savi_L = shape nir \<and>
       (\<forall>i<length nir. \<forall>j<length (nir ! i).
          savi_L ! i ! j = spec_SAVI L (nir ! i ! j) (red ! i ! j) \<and>
          - 1 \<le> savi_L ! i ! j \<and> savi_L ! i ! j \<le> 1)" for L
  proof -
    have "\<And>P. compute_savi (np_ew1 fst P) (np_ew1 snd P) (Some L) =
        Some (np_ew1 (\<lambda>p. spec_SAVI L (fst p) (snd p)) P)"
      by (simp add: compute_savi_pairs)
    from pixels_of_pairs [OF assms(1), of "\<lambda>a b. compute_savi a b (Some L)" "spec_SAVI L", OF this]
    obtain r where r: "compute_savi nir red (Some L) = Some r" "shape r = shape nir"
      "\<forall>i<length nir. \<forall>j<length (nir ! i). r ! i ! j = spec_SAVI L (nir ! i ! j) (red ! i ! j)"
      by blast
    from r(3) have "\<forall>i<length nir. \<forall>j<length (nir ! i).
        r ! i ! j = spec_SAVI L (nir ! i ! j) (red ! i ! j) \<and> - 1 \<le> r ! i ! j \<and> r ! i ! j \<le> 1"
      by (simp add: spec_index_bounds)
    with r(1,2) show ?thesis by blast
  qed
  from 1(1,2) 2(1,2) 3(1,2) 4(1,2) px any_L eps_pos spec_denominator_nz show ?thesis
    by blast
qed

theorem index_formulas_witness:
  "shape [[3/20, 0]] = shape [[1/2, 0::real]] \<and> shape [[1/5, 0]] = shape [[1/2, 0::real]] \<and>
   shape [[1/10, 0]] = shape [[1/2, 0::real]] \<and>
   (\<exists>ndvi ndwi savi evi.
      compute_ndvi [[1/2, 0]] [[3/20, 0]] = Some ndvi \<and>
      compute_ndwi [[1/2, 0]] [[1/5, 0]] = Some ndwi \<and>
      compute_savi [[1/2, 0]] [[3/20, 0]] None = Some savi \<and>
      compute_evi [[1/2, 0]] [[3/20, 0]] [[1/10, 0]] = Some evi \<and>
      ndvi ! 0 ! 0 = 7/13 \<and> ndvi ! 0 ! 1 = 0 \<and> ndwi ! 0 ! 0 = - 3/7 \<and> ndwi ! 0 ! 1 = 0 \<and>
      savi ! 0 ! 0 = 21/46 \<and> evi ! 0 ! 0 = 35/66)"
proof -
  have h1: "shape [[3/20, 0]] = shape [[1/2, 0::real]]"
    and h2: "shape [[1/5, 0]] = shape [[1/2, 0::real]]"
    and h3: "shape [[1/10, 0]] = shape [[1/2, 0::real]]"
    by (simp_all add: shape_def)
  from index_formulas [OF h1 h2 h3]
  obtain ndvi ndwi savi evi where c:
    "compute_ndvi [[1/2, 0]] [[3/20, 0]] = Some ndvi"
    "compute_ndwi [[1/2, 0]] [[1/5, 0]] = Some ndwi"
    "compute_savi [[1/2, 0]] [[3/20, 0]] None = Some savi"
    "compute_evi [[1/2, 0]] [[3/20, 0]] [[1/10, 0]] = Some evi"
    and px: "\<forall>i<length [[1/2, 0::real]]. \<forall>j<length ([[1/2, 0::real]] ! i).
       ndvi ! i ! j = spec_NDVI ([[1/2, 0]] ! i ! j) ([[3/20, 0]] ! i ! j) \<and>
       ndwi ! i ! j = spec_NDWI ([[1/2, 0]] ! i ! j) ([[1/5, 0]] ! i ! j) \<and>
       savi ! i ! j = spec_SAVI 0.5 ([[1/2, 0]] ! i ! j) ([[3/20, 0]] ! i ! j) \<and>
       evi ! i ! j = spec_EVI ([[1/2, 0]] ! i ! j) ([[3/20, 0]] ! i ! j) ([[1/10, 0]] ! i ! j)"
    by blast
  from px have "ndvi ! 0 ! 0 = spec_NDVI (1/2) (3/20)" "ndvi ! 0 ! 1 = spec_NDVI 0 0"
    "ndwi ! 0 ! 0 = spec_NDWI (1/2) (1/5)" "ndwi ! 0 ! 1 = spec_NDWI 0 0"
    "savi ! 0 ! 0 = spec_SAVI 0.5 (1/2) (3/20)" "evi ! 0 ! 0 = spec_EVI (1/2) (3/20) (1/10)"
    by simp_all
  then have "ndvi ! 0 ! 0 = 7/13" "ndvi ! 0 ! 1 = 0" "ndwi ! 0 ! 0 = - 3/7" "ndwi ! 0 ! 1 = 0"
    "savi ! 0 ! 0 = 21/46" "evi ! 0 ! 0 = 35/66"
    by (simp_all add: spec_NDVI_def spec_NDWI_def spec_SAVI_def spec_EVI_def
        spec_denominator_def spec_clamp_def eps_def)
  with c h1 h2 h3 show ?thesis by blast
qed

section \<open>Health zones\<close>

lemma np_size_ew1 [simp]: "np_size (np_ew1 f P) = np_size P"
  by (simp add: np_size_def np_ew1_def length_concat comp_def)

lemma np_assign_where_same_source:
  "np_assign_where (np_ew1 z P) (np_ew1 m P) v = Some (np_ew1 (\<lambda>p. if m p then v else z p) P)"
  by (simp add: np_assign_where_def np_ew2_same_source)

lemma np_ew1_cong: "(\<And>p. f p = g p) \<Longrightarrow> np_ew1 f P = np_ew1 g P"
  by (simp add: np_ew1_def)

lemma mask_zone_spec: "mask_zone p = spec_zone (fst p) (snd p)"
  by (simp add: mask_zone_def spec_zone_def Let_def)

lemma np_lt_fst: "np_lt (np_ew1 f P) c = np_ew1 (\<lambda>p. f p < c) P"
  by (simp add: np_lt_def np_ew1_ew1)

lemma np_or_same_source:
  "np_or (np_ew1 f P) (np_ew1 g P) = Some (np_ew1 (\<lambda>p. f p \<or> g p) P)"
  by (simp add: np_or_def np_ew2_same_source)

lemma np_and_same_source:
  "np_and (np_ew1 f P) (np_ew1 g P) = Some (np_ew1 (\<lambda>p. f p \<and> g p) P)"
  by (simp add: np_and_def np_ew2_same_source)

lemma np_not_ew1: "np_not (np_ew1 f P) = np_ew1 (\<lambda>p. \<not> f p) P"
  by (simp add: np_not_def np_ew1_ew1)

lemma np_zeros_like_ew1: "np_zeros_like (np_ew1 f P) = np_ew1 (\<lambda>p. 0) P"
  by (simp add: np_zeros_like_def np_ew1_ew1)

lemma percent_of_zone:
  "np_size zones \<noteq> 0 \<Longrightarrow> percent_of (np_count_eq zones k) (np_size zones) = Some (zone_percent zones k)"
  by (simp add: percent_of_def zone_percent_def)

lemma zones_pairs_masks:
  assumes "np_size P \<noteq> 0"
  shows "classify_health_zones (np_ew1 fst P) (np_ew1 snd P) =
     Some (np_ew1 mask_zone P,
       \<lparr>critical_percent = zone_percent (np_ew1 mask_zone P) 0,
        stressed_percent = zone_percent (np_ew1 mask_zone P) 1,
        moderate_percent = zone_percent (np_ew1 mask_zone P) 2,
        healthy_percent = zone_percent (np_ew1 mask_zone P) 3\<rparr>)"
proof -
  have sz: "np_size (np_ew1 mask_zone P) \<noteq> 0" using assms by simp
  show ?thesis
    unfolding classify_health_zones_def
    apply (simp only: np_lt_fst np_or_same_source np_and_same_source np_not_ew1
        np_zeros_like_ew1 np_assign_where_same_source Option.bind_lunit Let_def)
    apply (simp only: mask_zone_def [abs_def, symmetric, unfolded Let_def])
    apply (simp only: percent_of_zone [OF sz] Option.bind_lunit)
    done
qed

lemma zones_pairs:
  assumes "np_size P \<noteq> 0"
  shows "classify_health_zones (np_ew1 fst P) (np_ew1 snd P) =
     Some (np_ew1 (\<lambda>p. spec_zone (fst p) (snd p)) P,
       \<lparr>critical_percent = zone_percent (np_ew1 (\<lambda>p. spec_zone (fst p) (snd p)) P) 0,
        stressed_percent = zone_percent (np_ew1 (\<lambda>p. spec_zone (fst p) (snd p)) P) 1,
        moderate_percent = zone_percent (np_ew1 (\<lambda>p. spec_zone (fst p) (snd p)) P) 2,
        healthy_percent = zone_percent (np_ew1 (\<lambda>p. spec_zone (fst p) (snd p)) P) 3\<rparr>)"
proof -
  have "np_ew1 mask_zone P = np_ew1 (\<lambda>p. spec_zone (fst p) (snd p)) P"
    by (rule np_ew1_cong) (rule mask_zone_spec)
  with zones_pairs_masks [OF assms] show ?thesis by simp
qed


lemma classify_same_shape:
  fixes ndvi ndwi :: raster
  assumes sh: "shape ndwi = shape ndvi" and ne: "np_size ndvi \<noteq> 0"
  shows "classify_health_zones ndvi ndwi =
     Some (np_ew1 (\<lambda>p. spec_zone (fst p) (snd p)) (map2 zip ndvi ndwi),
       \<lparr>critical_percent = zone_percent (np_ew1 (\<lambda>p. spec_zone (fst p) (snd p)) (map2 zip ndvi ndwi)) 0,
        stressed_percent = zone_percent (np_ew1 (\<lambda>p. spec_zone (fst p) (snd p)) (map2 zip ndvi ndwi)) 1,
        moderate_percent = zone_percent (np_ew1 (\<lambda>p. spec_zone (fst p) (snd p)) (map2 zip ndvi ndwi)) 2,
        healthy_percent = zone_percent (np_ew1 (\<lambda>p. spec_zone (fst p) (snd p)) (map2 zip ndvi ndwi)) 3\<rparr>)"
proof -
  let ?P = "map2 zip ndvi ndwi"
  from sh have sh': "shape ndvi = shape ndwi" by simp
  have P: "ndvi = np_ew1 fst ?P" "ndwi = np_ew1 snd ?P"
    using same_shape_pairs [OF sh'] by simp_all
  have "np_size ?P = np_size (np_ew1 fst ?P)" by simp
  with P(1) ne have "np_size ?P \<noteq> 0" by simp
  from zones_pairs [OF this] P show ?thesis by simp
qed

lemma spec_zone_range: "spec_zone a b < 4"
  by (simp add: spec_zone_def)

lemma count_four:
  "\<forall>z\<in>set zs. z < (4::nat) \<Longrightarrow>
   length (filter (\<lambda>z. z = 0) zs) + length (filter (\<lambda>z. z = 1) zs) +
   length (filter (\<lambda>z. z = 2) zs) + length (filter (\<lambda>z. z = 3) zs) = length zs"
  by (induction zs) auto

lemma concat_ew1: "concat (np_ew1 f P) = map f (concat P)"
  by (simp add: np_ew1_def map_concat)

lemma zone_percent_sum:
  assumes "np_size P \<noteq> 0"
  shows "zone_percent (np_ew1 (\<lambda>p. spec_zone (fst p) (snd p)) P) 0 +
         zone_percent (np_ew1 (\<lambda>p. spec_zone (fst p) (snd p)) P) 1 +
         zone_percent (np_ew1 (\<lambda>p. spec_zone (fst p) (snd p)) P) 2 +
         zone_percent (np_ew1 (\<lambda>p. spec_zone (fst p) (snd p)) P) 3 = 100"
proof -
  let ?Z = "np_ew1 (\<lambda>p. spec_zone (fst p) (snd p)) P"
  have "\<forall>z\<in>set (concat ?Z). z < 4"
    by (simp add: concat_ew1 spec_zone_range)
  from count_four [OF this]
  have "np_count_eq ?Z 0 + np_count_eq ?Z 1 + np_count_eq ?Z 2 + np_count_eq ?Z 3 = np_size ?Z"
    by (simp add: np_count_eq_def np_size_def)
  then have "real (np_count_eq ?Z 0) + real (np_count_eq ?Z 1) + real (np_count_eq ?Z 2) +
      real (np_count_eq ?Z 3) = real (np_size ?Z)"
    by (simp only: of_nat_add [symmetric])
  moreover have "real (np_size ?Z) \<noteq> 0" using assms by simp
  ultimately show ?thesis
    unfolding zone_percent_def
    by (simp only: add_divide_distrib [symmetric] distrib_right [symmetric])
       (simp)
qed


text \<open>
  Claim C2. For NDVI and NDWI rasters of one shape with at least one pixel,
  \<open>classify_health_zones\<close> returns a zone map of that shape in which every pixel carries
  exactly the code of the first rule of the specification that matches it: critical (0)
  if NDVI < 0.2 or NDWI < -0.2, else stressed (1) if NDVI < 0.4 or NDWI < 0, else moderate
  (2) if NDVI < 0.6, else healthy (3).
\<close>

theorem zones_by_priority:
  fixes ndvi ndwi :: raster
  assumes "shape ndwi = shape ndvi" and "np_size ndvi \<noteq> 0"
  shows "\<exists>zones stats. classify_health_zones ndvi ndwi = Some (zones, stats) \<and>
     shape zones = shape ndvi \<and>
     (\<forall>i<length ndvi. \<forall>j<length (ndvi ! i).
        zones ! i ! j = spec_zone (ndvi ! i ! j) (ndwi ! i ! j) \<and> zones ! i ! j \<in> {0, 1, 2, 3})"
proof -
  let ?Z = "np_ew1 (\<lambda>p. spec_zone (fst p) (snd p)) (map2 zip ndvi ndwi)"
  from assms(1) have sh: "shape ndvi = shape ndwi" by simp
  have shP: "shape (map2 zip ndvi ndwi) = shape ndvi" by (rule shape_zip_rows [OF sh])
  have "shape ?Z = shape ndvi" using shP by simp
  moreover have "\<forall>i<length ndvi. \<forall>j<length (ndvi ! i).
      ?Z ! i ! j = spec_zone (ndvi ! i ! j) (ndwi ! i ! j) \<and> ?Z ! i ! j \<in> {0, 1, 2, 3}"
    by (simp add: nth_ew1_shape [OF shP] nth_zip_rows [OF sh] spec_zone_def)
  ultimately show ?thesis
    using classify_same_shape [OF assms] by blast
qed

theorem zones_by_priority_witness:
  "shape [[1/10, 1/2, - 1/10, 1/10]] = shape [[7/13, 1/10, 7/10, 3/10::real]] \<and>
   np_size [[7/13, 1/10, 7/10, 3/10::real]] \<noteq> 0 \<and>
   (\<exists>zones stats.
      classify_health_zones [[7/13, 1/10, 7/10, 3/10]] [[1/10, 1/2, - 1/10, 1/10]] = Some (zones, stats) \<and>
      zones ! 0 ! 0 = 2 \<and> zones ! 0 ! 1 = 0 \<and> zones ! 0 ! 2 = 1 \<and> zones ! 0 ! 3 = 1)"
proof -
  have h1: "shape [[1/10, 1/2, - 1/10, 1/10]] = shape [[7/13, 1/10, 7/10, 3/10::real]]"
    by (simp add: shape_def)
  have h2: "np_size [[7/13, 1/10, 7/10, 3/10::real]] \<noteq> 0"
    by (simp add: np_size_def)
  from zones_by_priority [OF h1 h2]
  obtain zones stats where c:
    "classify_health_zones [[7/13, 1/10, 7/10, 3/10]] [[1/10, 1/2, - 1/10, 1/10]] = Some (zones, stats)"
    and px: "\<forall>i<length [[7/13, 1/10, 7/10, 3/10::real]]. \<forall>j<length ([[7/13, 1/10, 7/10, 3/10::real]] ! i).
        zones ! i ! j = spec_zone ([[7/13, 1/10, 7/10, 3/10]] ! i ! j) ([[1/10, 1/2, - 1/10, 1/10]] ! i ! j)"
    by blast
  from px have "zones ! 0 ! 0 = spec_zone (7/13) (1/10)" "zones ! 0 ! 1 = spec_zone (1/10) (1/2)"
    "zones ! 0 ! 2 = spec_zone (7/10) (- 1/10)" "zones ! 0 ! 3 = spec_zone (3/10) (1/10)"
    by simp_all
  then have "zones ! 0 ! 0 = 2" "zones ! 0 ! 1 = 0" "zones ! 0 ! 2 = 1" "zones ! 0 ! 3 = 1"
    by (simp_all add: spec_zone_def)
  with c h1 h2 show ?thesis by blast
qed

text \<open>
  Claim C8. For NDVI and NDWI rasters of one shape with at least one pixel, the four zone
  percentages returned by \<open>classify_health_zones\<close> sum to 100 (exactly, in real
  arithmetic).
\<close>

theorem zone_percentages_sum:
  fixes ndvi ndwi :: raster
  assumes "shape ndwi = shape ndvi" and "np_size ndvi \<noteq> 0"
  shows "\<exists>zones stats. classify_health_zones ndvi ndwi = Some (zones, stats) \<and>
     critical_percent stats + stressed_percent stats + moderate_percent stats +
     healthy_percent stats = 100"
proof -
  let ?P = "map2 zip ndvi ndwi"
  from assms(1) have sh: "shape ndvi = shape ndwi" by simp
  have "np_size ?P = np_size (np_ew1 fst ?P)" by simp
  also have "np_ew1 fst ?P = ndvi" using same_shape_pairs [OF sh] by simp
  finally have "np_size ?P \<noteq> 0" using assms(2) by simp
  from zone_percent_sum [OF this] classify_same_shape [OF assms] show ?thesis
    by simp
qed

theorem zone_percentages_sum_witness:
  "shape [[1/10, 1/2, - 1/10]] = shape [[7/13, 1/10, 7/10::real]] \<and>
   np_size [[7/13, 1/10, 7/10::real]] \<noteq> 0 \<and>
   (\<exists>zones stats.
      classify_health_zones [[7/13, 1/10, 7/10]] [[1/10, 1/2, - 1/10]] = Some (zones, stats) \<and>
      critical_percent stats + stressed_percent stats + moderate_percent stats +
      healthy_percent stats = 100)"
proof -
  have h1: "shape [[1/10, 1/2, - 1/10]] = shape [[7/13, 1/10, 7/10::real]]"
    by (simp add: shape_def)
  have h2: "np_size [[7/13, 1/10, 7/10::real]] \<noteq> 0"
    by (simp add: np_size_def)
  from zone_percentages_sum [OF h1 h2] h1 h2 show ?thesis by blast
qed

section \<open>Zone percentages and index statistics\<close>















lemma shape_ones_like [simp]: "shape (np_ones_like a) = shape a"
  by (simp add: np_ones_like_def)






section \<open>Rounding and the health score\<close>

lemma round_half_even_lower: "\<lfloor>y\<rfloor> \<le> round_half_even y"
  by (simp add: round_half_even_def Let_def)

lemma round_half_even_upper: "round_half_even y \<le> \<lfloor>y\<rfloor> + 1"
  by (simp add: round_half_even_def Let_def)

lemma round_half_even_mono:
  assumes "x \<le> y"
  shows "round_half_even x \<le> round_half_even y"
proof (cases "\<lfloor>x\<rfloor> = \<lfloor>y\<rfloor>")
  case True
  with assms have "x - of_int \<lfloor>y\<rfloor> \<le> y - of_int \<lfloor>y\<rfloor>" by simp
  with True show ?thesis
    by (auto simp: round_half_even_def Let_def)
next
  case False
  with floor_mono [OF assms] have "\<lfloor>x\<rfloor> + 1 \<le> \<lfloor>y\<rfloor>" by simp
  with round_half_even_upper [of x] round_half_even_lower [of y] show ?thesis by linarith
qed

lemma round_half_even_of_int [simp]: "round_half_even (of_int k) = k"
  by (simp add: round_half_even_def)

lemma py_round_mono: "x \<le> y \<Longrightarrow> py_round x n \<le> py_round y n"
  unfolding py_round_def
  by (intro divide_right_mono) (simp_all add: round_half_even_mono mult_right_mono)

lemma clip_range: "lo \<le> hi \<Longrightarrow> clip x lo hi = spec_clamp_range x lo hi"
  by (simp add: clip_def spec_clamp_range_def min_def max_def)

lemma clip_mono: "x \<le> y \<Longrightarrow> clip x lo hi \<le> clip y lo hi"
  by (simp add: clip_def min_def max_def)

lemma compute_health_score_spec:
  "compute_health_score indices = spec_health_score (ndvi_mean indices) (ndwi_mean indices)"
  by (simp add: compute_health_score_def spec_health_score_def Let_def clip_range)

lemma spec_clamp_range_mono: "lo \<le> hi \<Longrightarrow> x \<le> y \<Longrightarrow> spec_clamp_range x lo hi \<le> spec_clamp_range y lo hi"
  by (simp add: spec_clamp_range_def)

lemma spec_health_score_mono:
  assumes "a \<le> a'" and "w \<le> w'"
  shows "spec_health_score a w \<le> spec_health_score a' w'"
proof -
  have "(a - 0.2) / 0.6 * 100 \<le> (a' - 0.2) / 0.6 * 100" using assms(1) by simp
  then have 1: "spec_clamp_range ((a - 0.2) / 0.6 * 100) 0 100 \<le> spec_clamp_range ((a' - 0.2) / 0.6 * 100) 0 100"
    by (intro spec_clamp_range_mono) simp_all
  have "(w + 0.2) / 0.6 * 100 \<le> (w' + 0.2) / 0.6 * 100" using assms(2) by simp
  then have 2: "spec_clamp_range ((w + 0.2) / 0.6 * 100) 0 100 \<le> spec_clamp_range ((w' + 0.2) / 0.6 * 100) 0 100"
    by (intro spec_clamp_range_mono) simp_all
  from 1 2 show ?thesis
    unfolding spec_health_score_def by (intro py_round_mono) simp
qed

text \<open>
  Claim C9. \<open>compute_health_score\<close> is
  round(0.7 * clamp((ndvi\_mean - 0.2) / 0.6 * 100, 0, 100) +
  0.3 * clamp((ndwi\_mean + 0.2) / 0.6 * 100, 0, 100), 1); it does not decrease when
  ndvi\_mean grows with ndwi\_mean fixed, nor when ndwi\_mean grows with ndvi\_mean fixed.
\<close>

theorem health_score_formula_monotone:
  "compute_health_score indices = spec_health_score (ndvi_mean indices) (ndwi_mean indices) \<and>
   (ndvi_mean indices \<le> ndvi_mean indices' \<and> ndwi_mean indices = ndwi_mean indices' \<longrightarrow>
      compute_health_score indices \<le> compute_health_score indices') \<and>
   (ndwi_mean indices \<le> ndwi_mean indices' \<and> ndvi_mean indices = ndvi_mean indices' \<longrightarrow>
      compute_health_score indices \<le> compute_health_score indices')"
  by (simp add: compute_health_score_spec spec_health_score_mono)

theorem health_score_formula_monotone_witness:
  "ndvi_mean indices_a \<le> ndvi_mean indices_b \<and> ndwi_mean indices_a = ndwi_mean indices_b \<and>
   compute_health_score indices_a = 50 \<and> compute_health_score indices_b = 617 / 10 \<and>
   compute_health_score indices_a \<le> compute_health_score indices_b"
proof -
  have h: "ndvi_mean indices_a \<le> ndvi_mean indices_b \<and> ndwi_mean indices_a = ndwi_mean indices_b"
    by (simp add: indices_a_def indices_b_def)
  have a: "compute_health_score indices_a = 50"
    by (simp add: compute_health_score_def indices_a_def Let_def clip_def py_round_def
        round_half_even_def)
  have b: "compute_health_score indices_b = 617 / 10"
    by (simp add: compute_health_score_def indices_b_def Let_def clip_def py_round_def
        round_half_even_def)
  from health_score_formula_monotone [of indices_a indices_b] h a b show ?thesis by blast
qed

section \<open>The time-series encoder\<close>

lemma np_mean_spec: "xs \<noteq> [] \<Longrightarrow> np_mean xs = Some (spec_mean xs)"
  by (simp add: np_mean_def spec_mean_def sum_list_sum_nth)

lemma spec_mean_map:
  "spec_mean (map f xs) = (\<Sum>i = 0..<length xs. f (xs ! i)) / real (length xs)"
  by (simp add: spec_mean_def)

lemma np_std_spec:
  assumes "xs \<noteq> []"
  shows "np_std xs = Some (spec_std xs)"
proof -
  let ?sq = "map (\<lambda>x. \<bar>x - spec_mean xs\<bar> ^ 2) xs"
  from assms have "?sq \<noteq> []" by simp
  from np_mean_spec [OF this]
  have "np_mean ?sq = Some ((\<Sum>i = 0..<length xs. (xs ! i - spec_mean xs) ^ 2) / real (length xs))"
    by (simp add: spec_mean_map)
  then show ?thesis
    by (simp add: np_std_def np_mean_spec [OF assms] spec_std_def)
qed

lemma np_max_spec: "xs \<noteq> [] \<Longrightarrow> np_max xs = Some (Max (set xs))"
  by (cases xs) (simp, simp only: np_max.simps Max.set_eq_fold)

lemma np_min_spec: "xs \<noteq> [] \<Longrightarrow> np_min xs = Some (Min (set xs))"
  by (cases xs) (simp, simp only: np_min.simps Min.set_eq_fold)

lemma length_np_diff: "length (np_diff xs) = length xs - 1"
  by (induction xs rule: np_diff.induct) simp_all

lemma nth_np_diff: "i < length xs - 1 \<Longrightarrow> np_diff xs ! i = xs ! (i + 1) - xs ! i"
proof (induction xs arbitrary: i rule: np_diff.induct)
  case (1 x y ys)
  then show ?case by (cases i) simp_all
qed simp_all

lemma np_diff_spec: "np_diff xs = spec_differences xs"
  by (rule nth_equalityI) (simp_all add: spec_differences_def length_np_diff nth_np_diff)

lemma item_last: "xs \<noteq> [] \<Longrightarrow> item xs (- 1) = Some (xs ! (length xs - 1))"
  by (cases xs) (simp_all add: item_def Let_def nat_diff_distrib nat_add_distrib)

lemma item_first: "xs \<noteq> [] \<Longrightarrow> item xs 0 = Some (xs ! 0)"
  by (simp add: item_def Let_def)

lemma encode_long:
  assumes "3 \<le> length series"
  shows "encode series =
     Some [spec_mean series, spec_std series, Max (set series), Min (set series),
           series ! (length series - 1) - series ! 0, series ! (length series - 1),
           spec_mean (spec_differences series), Max (set (spec_differences series))]"
proof -
  from assms have ne: "series \<noteq> []" by auto
  from assms have "length (np_diff series) \<noteq> 0" by (simp add: length_np_diff)
  then have ned: "spec_differences series \<noteq> []" by (simp add: np_diff_spec)
  have "\<not> length series < 3" using assms by simp
  then show ?thesis
    unfolding encode_def
    by (simp only: if_False np_mean_spec [OF ne] np_std_spec [OF ne] np_max_spec [OF ne]
        np_min_spec [OF ne] item_last [OF ne] item_first [OF ne] np_mean_spec [OF ned]
        np_max_spec [OF ned] np_diff_spec Option.bind_lunit)
qed

lemma encode_short: "length series < 3 \<Longrightarrow> encode series = Some [0, 0, 0, 0, 0, 0, 0, 0]"
  by (simp add: encode_def numeral_eq_Suc)

lemma encode_example:
  "\<exists>v. encode [0.4, 0.5, 0.6] = Some v \<and> length v = 8 \<and> v ! 0 = 0.5 \<and> v ! 4 = 0.2 \<and> v ! 5 = 0.6"
  by (simp add: encode_def np_mean_def np_std_def item_def)

text \<open>
  Claim C6. On a sequence of fewer than 3 readings \<open>encode\<close> returns the all-zero vector
  of 8 elements; on 3 or more readings it returns mean, standard deviation, maximum,
  minimum, last minus first, last value, mean of the consecutive differences and largest
  consecutive difference, in this order. The series [0.4, 0.5, 0.6] has mean 0.5, trend
  0.2 and last value 0.6.
\<close>

theorem encode_summary:
  "(length series < 3 \<longrightarrow> encode series = Some [0, 0, 0, 0, 0, 0, 0, 0]) \<and>
   (3 \<le> length series \<longrightarrow> encode series =
      Some [spec_mean series, spec_std series, Max (set series), Min (set series),
            series ! (length series - 1) - series ! 0, series ! (length series - 1),
            spec_mean (spec_differences series), Max (set (spec_differences series))]) \<and>
   (\<exists>v. encode [0.4, 0.5, 0.6] = Some v \<and> length v = 8 \<and>
        v ! 0 = 0.5 \<and> v ! 4 = 0.2 \<and> v ! 5 = 0.6)"
  using encode_short [of series] encode_long [of series] encode_example by blast

theorem encode_summary_witness:
  "length [1, 2::real] < 3 \<and> encode [1, 2] = Some [0, 0, 0, 0, 0, 0, 0, 0] \<and>
   3 \<le> length [2/5, 1/2, 3/5::real] \<and>
   encode [2/5, 1/2, 3/5] =
     Some [1/2, spec_std [2/5, 1/2, 3/5], 3/5, 2/5, 1/5, 3/5, 1/10, 1/10]"
proof -
  have h1: "length [1, 2::real] < 3" and h2: "3 \<le> length [2/5, 1/2, 3/5::real]" by simp_all
  have d: "spec_differences [2/5, 1/2, 3/5] = [1/10, 1/10]"
    by (simp add: spec_differences_def upt_rec)
  have m: "spec_mean [2/5, 1/2, 3/5] = 1/2" "spec_mean [1/10, 1/10] = 1/10"
    by (simp_all add: spec_mean_def numeral_eq_Suc)
  from encode_summary [of "[1, 2]"] h1
  have "encode [1, 2::real] = Some [0, 0, 0, 0, 0, 0, 0, 0]" by blast
  moreover from encode_summary [of "[2/5, 1/2, 3/5]"] h2
  have "encode [2/5, 1/2, 3/5] =
     Some [1/2, spec_std [2/5, 1/2, 3/5], 3/5, 2/5, 1/5, 3/5, 1/10, 1/10]"
    by (simp add: d m)
  ultimately show ?thesis using h1 h2 by blast
qed

section \<open>Yield prediction\<close>

lemma irrigation_factor_spec:
  "(case irrigation_factors m of Some f \<Rightarrow> f | None \<Rightarrow> 0.8) = spec_irrigation_factor m"
  by (simp add: irrigation_factors_def spec_irrigation_factor_def)

lemma lookup_other: "PAKISTAN_YIELDS (Other s) = None"
  by (simp add: PAKISTAN_YIELDS_def)

lemma lookup_member: "\<exists>row. PAKISTAN_YIELDS (Member c) = Some row"
  by (cases c) (simp_all add: PAKISTAN_YIELDS_def)

lemma lookup_none: "(PAKISTAN_YIELDS k = None) = (\<exists>s. k = Other s)"
  using lookup_member lookup_other by (cases k) auto

lemma table_rows:
  assumes "PAKISTAN_YIELDS k = Some row"
  shows "0 < min' row \<and> min' row < optimal row"
proof (cases k)
  case (Member c)
  with assms show ?thesis by (cases c) (auto simp: PAKISTAN_YIELDS_def)
next
  case (Other s)
  with assms show ?thesis by (simp add: lookup_other)
qed

lemma predict_noise:
  assumes "PAKISTAN_YIELDS (crop_type farm) = Some row"
  shows "XGBoostYieldModel_predict noise farm =
     Inr (spec_clamp_range
       ((min' row + spec_combined farm * (optimal row - min' row)) * (1 + noise))
       (min' row) (optimal row))"
proof -
  from table_rows [OF assms] have "min' row \<le> optimal row" by simp
  then show ?thesis
    by (simp add: XGBoostYieldModel_predict_def assms Let_def irrigation_factor_spec
        spec_combined_def clip_range)
qed

lemma predict_in_range:
  assumes "PAKISTAN_YIELDS (crop_type farm) = Some row"
  shows "\<exists>y. XGBoostYieldModel_predict noise farm = Inr y \<and> min' row \<le> y \<and> y \<le> optimal row"
proof -
  from table_rows [OF assms] have "min' row \<le> optimal row" by simp
  then show ?thesis
    by (simp add: predict_noise [OF assms] spec_clamp_range_def)
qed

lemma predict_sample:
  "XGBoostYieldModel_predict 0 sample_farm = Inr (153/32)"
  "XGBoostYieldModel_predict (- 1/10) sample_farm = Inr (1377/320)"
  by (simp_all add: XGBoostYieldModel_predict_def sample_farm_def PAKISTAN_YIELDS_def Let_def
      irrigation_factors_def clip_def)

lemma YieldPredictor_predict_fields:
  assumes "PAKISTAN_YIELDS (crop_type farm) = Some row"
    and "XGBoostYieldModel_predict noise farm = Inr y"
  shows "\<exists>p. YieldPredictor_predict noise farm = Inr p \<and>
     YieldPrediction.crop_type p = crop_type farm \<and>
     predicted_yield_tons_per_hectare p = py_round y 2 \<and>
     confidence_interval p =
       (py_round (y - 1.96 * (0.15 * y)) 2, py_round (y + 1.96 * (0.15 * y)) 2) \<and>
     national_average p = national_avg row \<and>
     district_average p = province_average p * 0.95 \<and>
     percentile p = py_int (clip ((y - min' row) / (optimal row - min' row) * 100) 0 100)"
  by (simp add: YieldPredictor_predict_def assms Let_def)

lemma table_rounded:
  assumes "PAKISTAN_YIELDS k = Some row"
  shows "py_round (min' row) 2 = min' row \<and> py_round (optimal row) 2 = optimal row"
proof (cases k)
  case (Member c)
  with assms show ?thesis
    by (cases c) (auto simp: PAKISTAN_YIELDS_def py_round_def round_half_even_def)
next
  case (Other s)
  with assms show ?thesis by (simp add: lookup_other)
qed

lemma predict_error:
  "(XGBoostYieldModel_predict noise farm = Inl e) =
     (PAKISTAN_YIELDS (crop_type farm) = None \<and> e = KeyError)"
  by (auto simp: XGBoostYieldModel_predict_def Let_def split: option.splits)

lemma forecast_error:
  "(YieldPredictor_predict noise farm = Inl e) =
     (PAKISTAN_YIELDS (crop_type farm) = None \<and> e = KeyError)"
proof (cases "PAKISTAN_YIELDS (crop_type farm)")
  case None
  then have "XGBoostYieldModel_predict noise farm = Inl KeyError"
    by (simp add: predict_error)
  with None show ?thesis by (auto simp: YieldPredictor_predict_def)
next
  case (Some row)
  from predict_in_range [OF Some, of noise]
  obtain y where y: "XGBoostYieldModel_predict noise farm = Inr y" by blast
  from YieldPredictor_predict_fields [OF Some y] Some show ?thesis by auto
qed

lemma sample_row: "PAKISTAN_YIELDS (crop_type sample_farm) = Some wheat_row"
  by (simp add: sample_farm_def PAKISTAN_YIELDS_def wheat_row_def)

lemma predict_same_fields:
  assumes "crop_type farm = crop_type farm'" and "current_ndvi farm = current_ndvi farm'"
    and "current_ndwi farm = current_ndwi farm'"
    and "irrigation_type farm = irrigation_type farm'"
  shows "XGBoostYieldModel_predict noise farm = XGBoostYieldModel_predict noise farm'"
  by (simp add: XGBoostYieldModel_predict_def assms Let_def split: option.split)

lemma forecast_same_fields:
  assumes "crop_type farm = crop_type farm'" and "current_ndvi farm = current_ndvi farm'"
    and "current_ndwi farm = current_ndwi farm'"
    and "irrigation_type farm = irrigation_type farm'"
    and "province farm = province farm'"
  shows "YieldPredictor_predict noise farm = YieldPredictor_predict noise farm'"
  using predict_same_fields [OF assms(1-4), of noise]
  by (simp add: YieldPredictor_predict_def assms ndvi_key_factors_def water_key_factors_def
      Let_def split: option.split sum.split)

text \<open>
  Claim C3, as amended. For a farm whose crop type is in the reference table and the
  noise sample \<open>noise\<close> that \<open>predict\<close> draws, the point estimate is
  (min\_yield + combined * (optimal\_yield - min\_yield)) * (1 + noise) clamped to
  [min\_yield, optimal\_yield], with combined = 0.5 * ndvi\_factor + 0.3 * water\_factor +
  0.2 * irrigation\_factor and the three factors of the specification; when the sample is
  0 it is the formula of the specification.
\<close>

theorem point_estimate_with_noise:
  assumes "PAKISTAN_YIELDS (crop_type farm) = Some row"
  shows "XGBoostYieldModel_predict noise farm =
       Inr (spec_clamp_range
         ((min' row + spec_combined farm * (optimal row - min' row)) * (1 + noise))
         (min' row) (optimal row)) \<and>
     XGBoostYieldModel_predict 0 farm = Inr (spec_point_estimate row farm)"
  using predict_noise [OF assms, of noise] predict_noise [OF assms, of 0]
  by (simp add: spec_point_estimate_def)

theorem point_estimate_with_noise_witness:
  "PAKISTAN_YIELDS (crop_type sample_farm) = Some wheat_row \<and>
   XGBoostYieldModel_predict (- 1/10) sample_farm = Inr (1377/320) \<and>
   XGBoostYieldModel_predict 0 sample_farm = Inr (153/32) \<and>
   spec_point_estimate wheat_row sample_farm = 153/32"
proof -
  have "spec_point_estimate wheat_row sample_farm = 153/32"
    by (simp add: spec_point_estimate_def spec_combined_def spec_clamp_range_def
        spec_irrigation_factor_def wheat_row_def sample_farm_def)
  moreover have "spec_clamp_range
         ((min' wheat_row + spec_combined sample_farm * (optimal wheat_row - min' wheat_row)) *
          (1 + - 1/10)) (min' wheat_row) (optimal wheat_row) = 1377/320"
    by (simp add: spec_combined_def spec_clamp_range_def
        spec_irrigation_factor_def wheat_row_def sample_farm_def)
  ultimately show ?thesis
    using point_estimate_with_noise [OF sample_row, of "- 1/10"] sample_row by simp
qed

text \<open>
  The claim as stated, without the noise, fails: on the example farm with the sample
  -0.1 the estimate is 4.303125, the formula gives 4.78125.
\<close>

theorem point_estimate_counterexample:
  "PAKISTAN_YIELDS (crop_type sample_farm) = Some wheat_row \<and>
   XGBoostYieldModel_predict (- 1/10) sample_farm \<noteq>
     Inr (spec_point_estimate wheat_row sample_farm)"
proof -
  have "spec_point_estimate wheat_row sample_farm = 153/32"
    by (simp add: spec_point_estimate_def spec_combined_def spec_clamp_range_def
        spec_irrigation_factor_def wheat_row_def sample_farm_def)
  then show ?thesis using sample_row predict_sample by simp
qed























text \<open>
  Claim C5, as amended. Yield prediction fails exactly when the crop type of the feature
  vector is absent from the reference table, that is, when it is no member of \<open>CropType\<close>,
  and then with the \<open>KeyError\<close> of the table lookup; it never fails with \<open>UnknownCropType\<close>
  or \<open>InvalidFeatureVector\<close>. It never looks at \<open>area_hectares\<close> and returns the same result
  whatever the area, also for an area of zero or less.
\<close>

theorem prediction_failure_only_on_lookup:
  "(XGBoostYieldModel_predict noise farm = Inl KeyError) =
     (PAKISTAN_YIELDS (crop_type farm) = None) \<and>
   (YieldPredictor_predict noise farm = Inl KeyError) =
     (PAKISTAN_YIELDS (crop_type farm) = None) \<and>
   (PAKISTAN_YIELDS (crop_type farm) = None) = (\<exists>s. crop_type farm = Other s) \<and>
   (\<exists>y. XGBoostYieldModel_predict noise farm = Inr y) =
     (PAKISTAN_YIELDS (crop_type farm) \<noteq> None) \<and>
   (\<exists>p. YieldPredictor_predict noise farm = Inr p) =
     (PAKISTAN_YIELDS (crop_type farm) \<noteq> None) \<and>
   XGBoostYieldModel_predict noise farm \<noteq> Inl UnknownCropType \<and>
   XGBoostYieldModel_predict noise farm \<noteq> Inl InvalidFeatureVector \<and>
   YieldPredictor_predict noise farm \<noteq> Inl UnknownCropType \<and>
   YieldPredictor_predict noise farm \<noteq> Inl InvalidFeatureVector \<and>
   XGBoostYieldModel_predict noise (farm\<lparr>area_hectares := a\<rparr>) =
     XGBoostYieldModel_predict noise farm \<and>
   YieldPredictor_predict noise (farm\<lparr>area_hectares := a\<rparr>) =
     YieldPredictor_predict noise farm"
proof -
  have x: "(\<exists>y. XGBoostYieldModel_predict noise farm = Inr y) =
     (PAKISTAN_YIELDS (crop_type farm) \<noteq> None)"
  proof (cases "PAKISTAN_YIELDS (crop_type farm)")
    case None
    then have "XGBoostYieldModel_predict noise farm = Inl KeyError" by (simp add: predict_error)
    with None show ?thesis by simp
  next
    case (Some row)
    with predict_in_range [OF Some, of noise] show ?thesis by auto
  qed
  have y: "(\<exists>p. YieldPredictor_predict noise farm = Inr p) =
     (PAKISTAN_YIELDS (crop_type farm) \<noteq> None)"
  proof (cases "PAKISTAN_YIELDS (crop_type farm)")
    case None
    then have "YieldPredictor_predict noise farm = Inl KeyError" by (simp add: forecast_error)
    with None show ?thesis by simp
  next
    case (Some row)
    from predict_in_range [OF Some, of noise]
    obtain v where "XGBoostYieldModel_predict noise farm = Inr v" by blast
    from YieldPredictor_predict_fields [OF Some this] Some show ?thesis by auto
  qed
  have "XGBoostYieldModel_predict noise (farm\<lparr>area_hectares := a\<rparr>) =
     XGBoostYieldModel_predict noise farm"
    by (rule predict_same_fields) simp_all
  moreover have "YieldPredictor_predict noise (farm\<lparr>area_hectares := a\<rparr>) =
     YieldPredictor_predict noise farm"
    by (rule forecast_same_fields) simp_all
  ultimately show ?thesis
    using x y by (simp add: predict_error forecast_error lookup_none)
qed

theorem prediction_failure_only_on_lookup_witness:
  "crop_type barley_farm = Other ''barley'' \<and> PAKISTAN_YIELDS (crop_type barley_farm) = None \<and>
   XGBoostYieldModel_predict 0 barley_farm = Inl KeyError \<and>
   YieldPredictor_predict 0 barley_farm = Inl KeyError \<and>
   area_hectares fallow_farm \<le> 0 \<and> PAKISTAN_YIELDS (crop_type fallow_farm) \<noteq> None \<and>
   (\<exists>y. XGBoostYieldModel_predict 0 fallow_farm = Inr y) \<and>
   (\<exists>p. YieldPredictor_predict 0 fallow_farm = Inr p) \<and>
   XGBoostYieldModel_predict 0 fallow_farm = XGBoostYieldModel_predict 0 sample_farm"
proof -
  have b: "crop_type barley_farm = Other ''barley''" by (simp add: barley_farm_def)
  have f: "area_hectares fallow_farm \<le> 0" "crop_type fallow_farm = Member WHEAT"
    "fallow_farm = sample_farm\<lparr>farm_id := 2\<rparr>\<lparr>area_hectares := 0\<rparr>"
    by (simp_all add: fallow_farm_def sample_farm_def)
  have "XGBoostYieldModel_predict 0 (sample_farm\<lparr>farm_id := 2\<rparr>) =
      XGBoostYieldModel_predict 0 sample_farm"
    by (rule predict_same_fields) simp_all
  with prediction_failure_only_on_lookup [of 0 barley_farm]
    prediction_failure_only_on_lookup [of 0 fallow_farm]
    prediction_failure_only_on_lookup [of 0 "sample_farm\<lparr>farm_id := 2\<rparr>" 0]
    b f show ?thesis
    by simp
qed

text \<open>
  The claim as stated fails in both halves: on a farm whose crop type is absent from the
  table the prediction fails with \<open>KeyError\<close>, not with \<open>UnknownCropType\<close>; on a farm of area
  0 it returns 4.78125 and no error.
\<close>

theorem typed_failure_counterexample:
  "PAKISTAN_YIELDS (crop_type barley_farm) = None \<and>
   XGBoostYieldModel_predict 0 barley_farm = Inl KeyError \<and>
   XGBoostYieldModel_predict 0 barley_farm \<noteq> Inl UnknownCropType \<and>
   YieldPredictor_predict 0 barley_farm = Inl KeyError \<and>
   YieldPredictor_predict 0 barley_farm \<noteq> Inl UnknownCropType \<and>
   area_hectares fallow_farm \<le> 0 \<and>
   XGBoostYieldModel_predict 0 fallow_farm = Inr (153/32) \<and>
   XGBoostYieldModel_predict 0 fallow_farm \<noteq> Inl InvalidFeatureVector"
proof -
  have "PAKISTAN_YIELDS (crop_type barley_farm) = None"
    by (simp add: barley_farm_def lookup_other)
  moreover have "area_hectares fallow_farm \<le> 0 \<and>
      XGBoostYieldModel_predict 0 fallow_farm = Inr (153/32)"
    by (simp add: fallow_farm_def XGBoostYieldModel_predict_def sample_farm_def
        PAKISTAN_YIELDS_def Let_def irrigation_factors_def clip_def)
  ultimately show ?thesis by (simp add: predict_error forecast_error)
qed

text \<open>
  Claim C7. For a farm whose crop type is in the reference table, and any noise sample,
  the point estimate lies in [min\_yield, optimal\_yield]; the returned forecast carries
  the estimate rounded to 2 decimals, still in [min\_yield, optimal\_yield], and the
  interval estimate - 1.96 * (0.15 * estimate), estimate + 1.96 * (0.15 * estimate) rounded
  to 2 decimals, with confidence\_interval low \<le> predicted\_yield \<le> confidence\_interval high.
\<close>

theorem forecast_bounds:
  assumes "PAKISTAN_YIELDS (crop_type farm) = Some row"
  shows "\<exists>y p. XGBoostYieldModel_predict noise farm = Inr y \<and>
     min' row \<le> y \<and> y \<le> optimal row \<and>
     YieldPredictor_predict noise farm = Inr p \<and>
     predicted_yield_tons_per_hectare p = py_round y 2 \<and>
     confidence_interval p =
       (py_round (y - 1.96 * (0.15 * y)) 2, py_round (y + 1.96 * (0.15 * y)) 2) \<and>
     y - 1.96 * (0.15 * y) \<le> y \<and> y \<le> y + 1.96 * (0.15 * y) \<and>
     min' row \<le> predicted_yield_tons_per_hectare p \<and>
     predicted_yield_tons_per_hectare p \<le> optimal row \<and>
     fst (confidence_interval p) \<le> predicted_yield_tons_per_hectare p \<and>
     predicted_yield_tons_per_hectare p \<le> snd (confidence_interval p)"
proof -
  from predict_in_range [OF assms]
  obtain y where y: "XGBoostYieldModel_predict noise farm = Inr y" "min' row \<le> y" "y \<le> optimal row"
    by blast
  from YieldPredictor_predict_fields [OF assms y(1)]
  obtain p where p: "YieldPredictor_predict noise farm = Inr p"
    "predicted_yield_tons_per_hectare p = py_round y 2"
    "confidence_interval p =
       (py_round (y - 1.96 * (0.15 * y)) 2, py_round (y + 1.96 * (0.15 * y)) 2)"
    by blast
  from table_rows [OF assms] y(2) have pos: "0 < y" by simp
  then have lo: "y - 1.96 * (0.15 * y) \<le> y" and hi: "y \<le> y + 1.96 * (0.15 * y)" by simp_all
  from py_round_mono [OF y(2), of 2] py_round_mono [OF y(3), of 2] table_rounded [OF assms]
  have rng: "min' row \<le> py_round y 2" "py_round y 2 \<le> optimal row" by simp_all
  from py_round_mono [OF lo, of 2] py_round_mono [OF hi, of 2]
  have ci: "py_round (y - 1.96 * (0.15 * y)) 2 \<le> py_round y 2"
    "py_round y 2 \<le> py_round (y + 1.96 * (0.15 * y)) 2" by simp_all
  from y p lo hi rng ci show ?thesis by simp
qed


theorem forecast_bounds_witness:
  "PAKISTAN_YIELDS (crop_type sample_farm) = Some wheat_row \<and>
   (\<exists>p. YieldPredictor_predict 0 sample_farm = Inr p \<and>
      predicted_yield_tons_per_hectare p = 239/50 \<and>
      confidence_interval p = (169/50, 619/100) \<and>
      min' wheat_row \<le> predicted_yield_tons_per_hectare p \<and>
      predicted_yield_tons_per_hectare p \<le> optimal wheat_row \<and>
      fst (confidence_interval p) \<le> predicted_yield_tons_per_hectare p \<and>
      predicted_yield_tons_per_hectare p \<le> snd (confidence_interval p))"
proof -
  from forecast_bounds [OF sample_row, of 0]
  obtain y p where yp: "XGBoostYieldModel_predict 0 sample_farm = Inr y"
    "YieldPredictor_predict 0 sample_farm = Inr p"
    "predicted_yield_tons_per_hectare p = py_round y 2"
    "confidence_interval p =
       (py_round (y - 1.96 * (0.15 * y)) 2, py_round (y + 1.96 * (0.15 * y)) 2)"
    "min' wheat_row \<le> predicted_yield_tons_per_hectare p"
    "predicted_yield_tons_per_hectare p \<le> optimal wheat_row"
    "fst (confidence_interval p) \<le> predicted_yield_tons_per_hectare p"
    "predicted_yield_tons_per_hectare p \<le> snd (confidence_interval p)"
    by blast
  from yp(1) have y: "y = 153/32" by (simp add: predict_sample)
  have "predicted_yield_tons_per_hectare p = 239/50"
    using yp(3) by (simp add: y py_round_def round_half_even_def)
  moreover have "confidence_interval p = (169/50, 619/100)"
    using yp(4) by (simp add: y py_round_def round_half_even_def)
  ultimately show ?thesis using sample_row yp(2,5-8) by blast
qed

end
